theory Spec2Isabelle
  imports Main "HOL-Library.Word" "HOL-Library.Signed_Division"
begin

section \<open>The centered() stream formatter of iomanip\_centered.h\<close>

text \<open>
  The header adds one formatter to the iomanip family: \<^verbatim>\<open>centered(value)\<close> wraps a value
  into a \<^verbatim>\<open>center_helper\<close> holding its text, and \<^verbatim>\<open>operator<<\<close> writes that text centred in
  the field width pending on the stream. The development below embeds the helper class,
  every \<^verbatim>\<open>centered\<close> overload and the insertion operator, together with the part of
  \<^verbatim>\<open>std::basic_ostream\<close> the operator touches.
\<close>

subsection \<open>Integer types\<close>

text \<open>
  \<^verbatim>\<open>std::streamsize\<close> is a signed and \<^verbatim>\<open>size_t\<close> an unsigned 64-bit integer (LP64). Both are
  64-bit words; \<open>sint\<close> reads a streamsize, \<open>unat\<close> a size\_t, and \<^verbatim>\<open>static_cast<size_t>\<close> of a
  streamsize keeps the bits.
\<close>

type_synonym streamsize = "64 word"
type_synonym size_t = "64 word"

subsection \<open>The output stream\<close>

text \<open>
  The flags of \<^verbatim>\<open>std::ios_base::fmtflags\<close>, a bitmask type, as a set of flag names.
  \<^verbatim>\<open>adjustfield\<close> is the mask \<^verbatim>\<open>left | right | internal\<close>.
\<close>

datatype fmtflag =
    ios_boolalpha | ios_dec | ios_fixed | ios_hex | ios_internal | ios_left | ios_oct
  | ios_right | ios_scientific | ios_showbase | ios_showpoint | ios_showpos | ios_skipws
  | ios_unitbuf | ios_uppercase

definition adjustfield :: "fmtflag set" where
  "adjustfield = {ios_left, ios_right, ios_internal}"

text \<open>
  A \<^verbatim>\<open>std::basic_ostream<charT>\<close> in its good state, writing to an unbounded buffer: the
  characters written so far and the formatting state of \<^verbatim>\<open>std::ios_base\<close> and
  \<^verbatim>\<open>std::basic_ios\<close>.
\<close>

record 'c basic_ostream =
  rdbuf :: "'c list"
  width :: streamsize
  fill :: 'c
  flags :: "fmtflag set"
  precision :: streamsize

text \<open>The state \<^verbatim>\<open>basic_ios::init\<close> establishes, on an empty buffer.\<close>

definition init :: "char basic_ostream" where
  "init = \<lparr>rdbuf = [], width = 0, fill = CHR '' '', flags = {ios_skipws, ios_dec},
           precision = 6\<rparr>"

text \<open>\<^verbatim>\<open>s << std::setw(n)\<close> calls \<^verbatim>\<open>s.width(n)\<close>.\<close>

definition setw :: "streamsize \<Rightarrow> 'c basic_ostream \<Rightarrow> 'c basic_ostream" where
  "setw n s = s\<lparr>width := n\<rparr>"

text \<open>
  The formatted inserters for character sequences (\<^verbatim>\<open>s << str\<close> for a \<^verbatim>\<open>std::basic_string\<close>
  and for a C string). The C++ standard determines the padding: when the sequence is
  shorter than \<^verbatim>\<open>width()\<close>, copies of \<^verbatim>\<open>fill()\<close> pad it to \<^verbatim>\<open>width()\<close> characters, placed after
  the sequence when \<^verbatim>\<open>(flags() & adjustfield) == left\<close> and before it otherwise. The padded
  sequence is written and \<^verbatim>\<open>width(0)\<close> is called.
\<close>

definition ostream_insert :: "'c basic_ostream \<Rightarrow> 'c list \<Rightarrow> 'c basic_ostream" where
  "ostream_insert s seq =
     (let padding =
            (if int (length seq) < sint (width s)
             then replicate (nat (sint (width s) - int (length seq))) (fill s)
             else [])
      in s\<lparr>rdbuf := rdbuf s @
                (if flags s \<inter> adjustfield = {ios_left} then seq @ padding
                 else padding @ seq),
            width := 0\<rparr>)"

subsection \<open>The helper class\<close>

text \<open>
  \<^verbatim>\<open>center_helper\<close> has one private member, set by the constructor; the only friend is the
  insertion operator, which takes the helper by const reference.
\<close>

record 'c center_helper =
  str_member :: "'c list"

definition center_helper :: "'c list \<Rightarrow> 'c center_helper" where
  "center_helper str = \<lparr>str_member = str\<rparr>"

text \<open>\<^verbatim>\<open>c.str_.length()\<close>, a \<^verbatim>\<open>size_t\<close>.\<close>

definition length_sz :: "'c list \<Rightarrow> size_t" where
  "length_sz str = word_of_nat (length str)"

subsection \<open>Number to text\<close>

text \<open>
  \<^verbatim>\<open>std::to_string\<close> on an integer writes what \<^verbatim>\<open>sprintf\<close> writes with \<^verbatim>\<open>%d\<close> (\<^verbatim>\<open>%u\<close>, \<^verbatim>\<open>%ld\<close>, ...):
  the decimal digits without leading zeros, after a minus sign for a negative value.
  The character types and the short types are promoted to \<^verbatim>\<open>int\<close> first, which keeps
  the value.
\<close>

definition digit_char :: "nat \<Rightarrow> char" where
  "digit_char d = char_of (48 + d)"

fun decimal :: "nat \<Rightarrow> string" where
  "decimal n = (if n < 10 then [digit_char n] else decimal (n div 10) @ [digit_char (n mod 10)])"

declare decimal.simps [simp del]

definition to_string :: "int \<Rightarrow> string" where
  "to_string v = (if v < 0 then CHR ''-'' # decimal (nat (- v)) else decimal (nat v))"

text \<open>
  Reading such a text back, as \<^verbatim>\<open>strtol\<close> does in base 10; it serves to state that the
  conversion loses nothing.
\<close>

definition digit_value :: "char \<Rightarrow> nat" where
  "digit_value ch = of_char ch - 48"

definition read_decimal :: "string \<Rightarrow> nat" where
  "read_decimal ds = foldl (\<lambda>acc ch. 10 * acc + digit_value ch) 0 ds"

definition from_string :: "string \<Rightarrow> int" where
  "from_string str =
     (case str of
        [] \<Rightarrow> 0
      | ch # ds \<Rightarrow> if ch = CHR ''-'' then - int (read_decimal ds) else int (read_decimal str))"

subsection \<open>The centered overloads\<close>

text \<open>The template for any \<^verbatim>\<open>std::basic_string\<close>, and its redeclaration for \<^verbatim>\<open>std::string\<close>.\<close>

definition centered :: "'c list \<Rightarrow> 'c center_helper" where
  "centered str = center_helper str"

definition centered_string :: "string \<Rightarrow> char center_helper" where
  "centered_string str = center_helper str"

text \<open>A character: \<^verbatim>\<open>std::string(1, character)\<close>.\<close>

definition centered_char :: "char \<Rightarrow> char center_helper" where
  "centered_char character = center_helper (replicate 1 character)"

text \<open>The built-in integer types, each through \<^verbatim>\<open>std::to_string\<close>.\<close>

definition centered_schar :: "8 word \<Rightarrow> char center_helper" where
  "centered_schar intval = center_helper (to_string (sint intval))"

definition centered_uchar :: "8 word \<Rightarrow> char center_helper" where
  "centered_uchar intval = center_helper (to_string (uint intval))"

definition centered_short :: "16 word \<Rightarrow> char center_helper" where
  "centered_short intval = center_helper (to_string (sint intval))"

definition centered_ushort :: "16 word \<Rightarrow> char center_helper" where
  "centered_ushort intval = center_helper (to_string (uint intval))"

definition centered_int :: "32 word \<Rightarrow> char center_helper" where
  "centered_int intval = center_helper (to_string (sint intval))"

definition centered_uint :: "32 word \<Rightarrow> char center_helper" where
  "centered_uint intval = center_helper (to_string (uint intval))"

definition centered_long :: "64 word \<Rightarrow> char center_helper" where
  "centered_long intval = center_helper (to_string (sint intval))"

definition centered_ulong :: "64 word \<Rightarrow> char center_helper" where
  "centered_ulong intval = center_helper (to_string (uint intval))"

definition centered_llong :: "64 word \<Rightarrow> char center_helper" where
  "centered_llong intval = center_helper (to_string (sint intval))"

definition centered_ullong :: "64 word \<Rightarrow> char center_helper" where
  "centered_ullong intval = center_helper (to_string (uint intval))"

text \<open>
  The floating-point types. \<^verbatim>\<open>std::to_string\<close> on a \<^verbatim>\<open>float\<close> or a \<^verbatim>\<open>double\<close> is the
  platform's \<^verbatim>\<open>%f\<close> conversion; it is a parameter here, over any type of floating-point
  values.
\<close>

definition centered_float :: "('f \<Rightarrow> string) \<Rightarrow> 'f \<Rightarrow> char center_helper" where
  "centered_float to_string_float floatval = center_helper (to_string_float floatval)"

definition centered_double :: "('d \<Rightarrow> string) \<Rightarrow> 'd \<Rightarrow> char center_helper" where
  "centered_double to_string_double floatval = center_helper (to_string_double floatval)"

subsection \<open>The insertion operator\<close>

text \<open>
  The guard \<^verbatim>\<open>static_cast<size_t>(w) > c.str_.length()\<close> compares two \<^verbatim>\<open>size_t\<close> values.
\<close>

definition pads :: "streamsize \<Rightarrow> 'c center_helper \<Rightarrow> bool" where
  "pads w c = (length_sz (str_member c) < w)"

text \<open>
  \<^verbatim>\<open>std::streamsize left = (w + c.str_.length()) / 2\<close>: the operands are a streamsize and a
  \<^verbatim>\<open>size_t\<close> of the same rank, so the usual arithmetic conversions turn \<^verbatim>\<open>w\<close> into a \<^verbatim>\<open>size_t\<close>;
  the sum and the division are unsigned, and the quotient, which is below \<open>2 ^ 63\<close>, is
  converted back to a streamsize.
\<close>

definition left_width :: "streamsize \<Rightarrow> 'c center_helper \<Rightarrow> streamsize" where
  "left_width w c = (w + length_sz (str_member c)) div 2"

text \<open>
  \<^verbatim>\<open>w - left\<close> subtracts two streamsizes. Signed overflow is undefined behaviour: the
  operator has no result then.
\<close>

definition sub_overflows :: "streamsize \<Rightarrow> streamsize \<Rightarrow> bool" where
  "sub_overflows a b = (sint a - sint b < - (2 ^ 63) \<or> 2 ^ 63 \<le> sint a - sint b)"

definition operator_lshift :: "'c basic_ostream \<Rightarrow> 'c center_helper \<Rightarrow> 'c basic_ostream option" where
  "operator_lshift s c =
     (let w = width s in
      if pads w c then
        (let left = left_width w c;
             s1 = ostream_insert (s\<lparr>width := left\<rparr>) (str_member c)
         in if sub_overflows w left then None
            else Some (ostream_insert (s1\<lparr>width := w - left\<rparr>) []))
      else Some (ostream_insert s (str_member c)))"

text \<open>The characters a run of the operator has appended to the stream \<open>s\<close> it started from.\<close>

abbreviation written :: "'c basic_ostream \<Rightarrow> 'c basic_ostream option \<Rightarrow> 'c list option" where
  "written s r \<equiv> map_option (\<lambda>s'. drop (length (rdbuf s)) (rdbuf s')) r"

section \<open>Properties\<close>

subsection \<open>Words as integers\<close>

lemma sint64: "sint (w::64 word) = (if uint w < 2 ^ 63 then uint w else uint w - 2 ^ 64)"
proof -
  have b: "0 \<le> uint w" "uint w < 2 ^ 64"
    using uint_lt2p [of w] by simp_all
  have s: "sint w = (uint w + 2 ^ 63) mod 2 ^ 64 - 2 ^ 63"
    by (simp add: sint_uint signed_take_bit_eq_take_bit_shift take_bit_eq_mod)
  show ?thesis
  proof (cases "uint w < 2 ^ 63")
    case True
    then have "(uint w + 2 ^ 63) mod 2 ^ 64 = uint w + 2 ^ 63"
      using b by (intro mod_pos_pos_trivial) simp_all
    then show ?thesis using True s by simp
  next
    case False
    have "(uint w + 2 ^ 63) mod 2 ^ 64 = (uint w - 2 ^ 63 + 2 ^ 64) mod 2 ^ 64"
      by (rule arg_cong [where f = "\<lambda>x. x mod 2 ^ 64"]) simp
    also have "\<dots> = (uint w - 2 ^ 63) mod 2 ^ 64"
      by (rule mod_add_self2)
    also have "\<dots> = uint w - 2 ^ 63"
      using b False by (intro mod_pos_pos_trivial) simp_all
    finally show ?thesis using False s by simp
  qed
qed

lemma uint_length_sz: "uint (length_sz xs) = int (length xs) mod 2 ^ 64"
  by (simp add: length_sz_def unsigned_of_nat take_bit_eq_mod of_nat_mod)

lemma uint_plus64: "uint ((a::64 word) + b) = (uint a + uint b) mod 2 ^ 64"
  by (simp add: uint_word_ariths)

lemma uint_minus64: "uint ((a::64 word) - b) = (uint a - uint b) mod 2 ^ 64"
  by (simp add: uint_word_ariths)

lemma uint_half64: "uint ((a::64 word) div 2) = uint a div 2"
  by (simp add: uint_div)


lemma padded_facts:
  assumes h: "int (length (str_member c)) < sint (width s)"
  shows "pads (width s) c"
    and "sint (left_width (width s) c) = (sint (width s) + int (length (str_member c))) div 2"
    and "sint (width s - left_width (width s) c)
           = sint (width s) - (sint (width s) + int (length (str_member c))) div 2"
    and "\<not> sub_overflows (width s) (left_width (width s) c)"
proof -
  let ?w = "width s" and ?n = "int (length (str_member c))"
  have w: "sint ?w = uint ?w" "uint ?w < 2 ^ 63"
    using h uint_lt2p [of "width s"] by (simp_all add: sint64 split: if_splits)
  have n: "uint (length_sz (str_member c)) = ?n"
    using h w by (simp add: uint_length_sz)
  show "pads ?w c"
    using h w n by (simp add: pads_def word_less_alt)
  have l: "uint (left_width ?w c) = (uint ?w + ?n) div 2"
    using h w n by (simp add: left_width_def uint_half64 uint_plus64)
  then show sl: "sint (left_width ?w c) = (sint ?w + ?n) div 2"
    using h w by (simp add: sint64)
  have "uint (?w - left_width ?w c) = uint ?w - (uint ?w + ?n) div 2"
    using h w l by (simp add: uint_minus64)
  then show sr: "sint (?w - left_width ?w c) = sint ?w - (sint ?w + ?n) div 2"
    using h w by (simp add: sint64)
  show "\<not> sub_overflows ?w (left_width ?w c)"
    using h w sl by (simp add: sub_overflows_def) arith
qed

lemma verbatim_facts:
  assumes "0 \<le> sint (width s)" and "sint (width s) \<le> int (length (str_member c))"
    and "length (str_member c) < 2 ^ 64"
  shows "\<not> pads (width s) c"
proof -
  have w: "sint (width s) = uint (width s)"
    using assms(1) uint_lt2p [of "width s"] by (simp add: sint64 split: if_splits)
  have "uint (length_sz (str_member c)) = int (length (str_member c))"
    using assms(3) by (simp add: uint_length_sz)
  then show ?thesis
    using assms(2) w by (simp add: pads_def word_less_alt)
qed


lemma half_left: "int n < W \<Longrightarrow> nat ((W + int n) div 2 - int n) = (nat W - n) div 2"
  by arith

lemma half_right: "int n < W \<Longrightarrow> nat (W - (W + int n) div 2) = (nat W - n + 1) div 2"
  by arith

lemma half_sum: "int n < W \<Longrightarrow> (nat W - n) div 2 + (nat W - n + 1) div 2 = nat W - n"
  by arith

lemma half_up: "(k + 1) div 2 = k div 2 + (if odd k then 1 else 0)" for k :: nat
  by (cases "even k") (auto elim!: evenE oddE)

lemma padded_length:
  assumes "int n < W"
  shows "(nat W - n) div 2 + (n + (nat W - n + 1) div 2) = nat W"
    and "n + (nat W - n) = nat W"
  using assms by arith+

lemma ostream_insert_eq:
  "ostream_insert s seq =
     s\<lparr>rdbuf := rdbuf s @
          (if flags s \<inter> adjustfield = {ios_left}
           then seq @ replicate (nat (sint (width s) - int (length seq))) (fill s)
           else replicate (nat (sint (width s) - int (length seq))) (fill s) @ seq),
       width := 0\<rparr>"
  by (simp add: ostream_insert_def)

lemma operator_lshift_padded:
  assumes h: "int (length (str_member c)) < sint (width s)"
  shows "operator_lshift s c =
     Some (s\<lparr>rdbuf := rdbuf s @
          (if flags s \<inter> adjustfield = {ios_left}
           then str_member c @ replicate (nat (sint (width s)) - length (str_member c)) (fill s)
           else replicate ((nat (sint (width s)) - length (str_member c)) div 2) (fill s)
                @ str_member c
                @ replicate ((nat (sint (width s)) - length (str_member c) + 1) div 2) (fill s)),
       width := 0\<rparr>)"
proof -
  note f = padded_facts [OF h]
  have "replicate ((nat (sint (width s)) - length (str_member c)) div 2) (fill s)
        @ replicate ((nat (sint (width s)) - length (str_member c) + 1) div 2) (fill s)
        = replicate (nat (sint (width s)) - length (str_member c)) (fill s)"
    using half_sum [OF h] by (simp add: replicate_add [symmetric])
  then show ?thesis
    using f half_left [OF h] half_right [OF h]
    by (simp add: operator_lshift_def Let_def ostream_insert_eq)
qed

lemma operator_lshift_verbatim:
  assumes "0 \<le> sint (width s)" and "sint (width s) \<le> int (length (str_member c))"
    and "length (str_member c) < 2 ^ 64"
  shows "operator_lshift s c = Some (s\<lparr>rdbuf := rdbuf s @ str_member c, width := 0\<rparr>)"
  using verbatim_facts [OF assms] assms(2)
  by (simp add: operator_lshift_def Let_def ostream_insert_eq)

lemma left_width_nonneg: "0 \<le> sint (left_width w c)"
proof -
  have "uint (left_width w c) < 2 ^ 63"
    using uint_lt2p [of "w + length_sz (str_member c)"]
    by (simp add: left_width_def uint_half64)
  then show ?thesis
    by (simp add: sint64)
qed

lemma nonneg_no_overflow: "0 \<le> sint w \<Longrightarrow> \<not> sub_overflows w (left_width w c)"
  using left_width_nonneg [of w c] sint_lt [of w] sint_lt [of "left_width w c"]
  by (simp add: sub_overflows_def)

lemma operator_lshift_defined:
  assumes "0 \<le> sint (width s) \<or> \<not> sub_overflows (width s) (left_width (width s) c)"
  shows "operator_lshift s c =
     Some (if pads (width s) c
           then ostream_insert
                  ((ostream_insert (s\<lparr>width := left_width (width s) c\<rparr>) (str_member c))
                     \<lparr>width := width s - left_width (width s) c\<rparr>) []
           else ostream_insert s (str_member c))"
  using assms nonneg_no_overflow [of "width s" c]
  by (auto simp add: operator_lshift_def Let_def)

lemma operator_lshift_frame:
  assumes "operator_lshift s c = Some s'"
  shows "fill s' = fill s \<and> flags s' = flags s"
proof (cases "pads (width s) c")
  case True
  then have "s' = ostream_insert
      ((ostream_insert (s\<lparr>width := left_width (width s) c\<rparr>) (str_member c))
         \<lparr>width := width s - left_width (width s) c\<rparr>) []"
    using assms
    by (cases "sub_overflows (width s) (left_width (width s) c)")
      (simp_all add: operator_lshift_def Let_def)
  then show ?thesis
    by (simp add: ostream_insert_def Let_def)
next
  case False
  then have "s' = ostream_insert s (str_member c)"
    using assms by (simp add: operator_lshift_def Let_def)
  then show ?thesis
    by (simp add: ostream_insert_def Let_def)
qed

lemma written_depends:
  assumes "width s1 = width s2" and "fill s1 = fill s2"
    and "(flags s1 \<inter> adjustfield = {ios_left}) = (flags s2 \<inter> adjustfield = {ios_left})"
  shows "written s1 (operator_lshift s1 c) = written s2 (operator_lshift s2 c)"
  using assms by (simp add: operator_lshift_def Let_def ostream_insert_def)

subsection \<open>Decimal text\<close>

lemma digit_value_digit_char: "d < 10 \<Longrightarrow> digit_value (digit_char d) = d"
  by (simp add: digit_value_def digit_char_def)

lemma read_decimal_decimal: "read_decimal (decimal n) = n"
proof (induction n rule: decimal.induct)
  case (1 n)
  show ?case
  proof (cases "n < 10")
    case True
    then show ?thesis
      by (simp add: decimal.simps [of n] read_decimal_def digit_value_digit_char)
  next
    case False
    then have "read_decimal (decimal n) = 10 * read_decimal (decimal (n div 10)) + n mod 10"
      by (simp add: decimal.simps [of n] read_decimal_def digit_value_digit_char)
    then show ?thesis
      using 1 False by simp
  qed
qed

lemma digit_char_not_minus:
  assumes "d < 10"
  shows "digit_char d \<noteq> CHR ''-''"
proof
  assume "digit_char d = CHR ''-''"
  then have "(of_char (digit_char d) :: nat) = of_char CHR ''-''"
    by (rule arg_cong)
  then show False
    using assms by (simp add: digit_char_def)
qed

lemma decimal_first: "\<exists>d ds. decimal n = digit_char d # ds \<and> d < 10"
proof (induction n rule: decimal.induct)
  case (1 n)
  show ?case
  proof (cases "n < 10")
    case True
    then have "decimal n = digit_char n # []"
      by (simp add: decimal.simps [of n])
    with True show ?thesis
      by blast
  next
    case False
    then obtain d ds where d: "decimal (n div 10) = digit_char d # ds" "d < 10"
      using 1 by blast
    have "decimal n = digit_char d # (ds @ [digit_char (n mod 10)])"
      using False d(1) by (simp add: decimal.simps [of n])
    with d(2) show ?thesis
      by blast
  qed
qed

text \<open>The text of an integer determines the integer.\<close>

lemma from_string_to_string: "from_string (to_string v) = v"
proof (cases "v < 0")
  case True
  then show ?thesis
    by (simp add: from_string_def to_string_def read_decimal_decimal)
next
  case False
  obtain d ds where d: "decimal (nat v) = digit_char d # ds" "d < 10"
    using decimal_first by blast
  have "read_decimal (digit_char d # ds) = nat v"
    using read_decimal_decimal [of "nat v"] d by simp
  then show ?thesis
    using False d digit_char_not_minus [of d] by (simp add: from_string_def to_string_def)
qed

lemma to_string_inject:
  assumes "to_string a = to_string b"
  shows "a = b"
proof -
  have "from_string (to_string a) = from_string (to_string b)"
    using assms by (rule arg_cong)
  then show ?thesis
    by (simp only: from_string_to_string)
qed

lemma to_string_examples:
  "to_string (- 10) = ''-10'' \<and> to_string 10 = ''10'' \<and> to_string 0 = ''0''"
  by code_simp

subsection \<open>Padding on both sides\<close>

text \<open>
  Claim C1, as the code has it. On a stream that is not left-adjusted (the default), a
  helper whose text is shorter than the pending width \<open>w\<close> is written as
  \<open>\<lfloor>(w - n) / 2\<rfloor>\<close> fill characters, the text, and \<open>\<lceil>(w - n) / 2\<rceil>\<close> fill characters:
  the two sides are equal when \<open>w - n\<close> is even, and the right side has the extra
  character when it is odd. The width is 0 afterwards.
\<close>

theorem C1_padding_split:
  assumes "int (length (str_member c)) < sint (width s)"
    and "flags s \<inter> adjustfield \<noteq> {ios_left}"
  shows "operator_lshift s c =
     Some (s\<lparr>rdbuf := rdbuf s
                 @ replicate ((nat (sint (width s)) - length (str_member c)) div 2) (fill s)
                 @ str_member c
                 @ replicate ((nat (sint (width s)) - length (str_member c) + 1) div 2) (fill s),
             width := 0\<rparr>)
     \<and> (nat (sint (width s)) - length (str_member c) + 1) div 2
         = (nat (sint (width s)) - length (str_member c)) div 2
           + (if odd (nat (sint (width s)) - length (str_member c)) then 1 else 0)"
proof
  show "operator_lshift s c =
     Some (s\<lparr>rdbuf := rdbuf s
                 @ replicate ((nat (sint (width s)) - length (str_member c)) div 2) (fill s)
                 @ str_member c
                 @ replicate ((nat (sint (width s)) - length (str_member c) + 1) div 2) (fill s),
             width := 0\<rparr>)"
    using assms by (simp add: operator_lshift_padded)
  show "(nat (sint (width s)) - length (str_member c) + 1) div 2
         = (nat (sint (width s)) - length (str_member c)) div 2
           + (if odd (nat (sint (width s)) - length (str_member c)) then 1 else 0)"
    by (rule half_up)
qed

text \<open>
  The header's own example \<^verbatim>\<open>oss << setw(10) << centered('w')\<close>: 4 spaces, the
  character, 5 spaces.
\<close>

theorem C1_padding_split_witness:
  "operator_lshift (setw 10 init) (centered_char CHR ''w'') = Some (init\<lparr>rdbuf := ''    w     ''\<rparr>)"
proof -
  let ?s = "setw 10 init" and ?c = "centered_char CHR ''w''"
  have h1: "int (length (str_member ?c)) < sint (width ?s)"
    by code_simp
  have h2: "flags ?s \<inter> adjustfield \<noteq> {ios_left}"
    by code_simp
  have r: "Some (?s\<lparr>rdbuf := rdbuf ?s
                 @ replicate ((nat (sint (width ?s)) - length (str_member ?c)) div 2) (fill ?s)
                 @ str_member ?c
                 @ replicate ((nat (sint (width ?s)) - length (str_member ?c) + 1) div 2) (fill ?s),
             width := 0\<rparr>) = Some (init\<lparr>rdbuf := ''    w     ''\<rparr>)"
    by code_simp
  show ?thesis
    by (rule trans [OF conjunct1 [OF C1_padding_split [OF h1 h2]] r])
qed

text \<open>
  Claim C1 as stated gives the extra character to the left and expects 5 spaces, the
  character, 4 spaces. The operator does not write that.
\<close>

theorem C1_left_bias_counterexample:
  "operator_lshift (setw 10 init) (centered_char CHR ''w'') \<noteq> Some (init\<lparr>rdbuf := ''     w    ''\<rparr>)"
  by code_simp

subsection \<open>Number of characters written\<close>

text \<open>
  Claim C2. For a pending width \<open>w \<ge> 0\<close> and a text of \<open>n\<close> characters (a length that a
  \<^verbatim>\<open>size_t\<close> holds), the operator returns and has written \<open>max w n\<close> characters.
\<close>

theorem C2_total_length:
  assumes "0 \<le> sint (width s)" and "length (str_member c) < 2 ^ 64"
  shows "map_option (\<lambda>s'. length (rdbuf s')) (operator_lshift s c)
           = Some (length (rdbuf s) + max (nat (sint (width s))) (length (str_member c)))"
proof (cases "int (length (str_member c)) < sint (width s)")
  case True
  have m: "max (nat (sint (width s))) (length (str_member c)) = nat (sint (width s))"
    using True by simp
  show ?thesis
    using padded_length [OF True]
    by (simp only: operator_lshift_padded [OF True] m) simp
next
  case False
  then have v: "sint (width s) \<le> int (length (str_member c))"
    by simp
  have m: "max (nat (sint (width s))) (length (str_member c)) = length (str_member c)"
    using v by simp
  show ?thesis
    by (simp only: operator_lshift_verbatim [OF assms(1) v assms(2)] m) simp
qed

text \<open>The text \<^verbatim>\<open>-10\<close> of \<^verbatim>\<open>centered((signed char) -10)\<close> at width 10 and at width 2.\<close>

theorem C2_total_length_witness:
  "map_option (\<lambda>s'. length (rdbuf s')) (operator_lshift (setw 10 init) (centered_schar (- 10))) = Some 10
   \<and> map_option (\<lambda>s'. length (rdbuf s')) (operator_lshift (setw 2 init) (centered_schar (- 10))) = Some 3"
proof -
  let ?c = "centered_schar (- 10)"
  have w10: "0 \<le> sint (width (setw 10 init))"
    by code_simp
  have w2: "0 \<le> sint (width (setw 2 init))"
    by code_simp
  have t: "str_member ?c = ''-10''"
    by code_simp
  have n: "length (str_member ?c) < 2 ^ 64"
    by (simp add: t)
  have r10: "Some (length (rdbuf (setw 10 init))
               + max (nat (sint (width (setw 10 init)))) (length (str_member ?c))) = Some 10"
    by code_simp
  have r2: "Some (length (rdbuf (setw 2 init))
               + max (nat (sint (width (setw 2 init)))) (length (str_member ?c))) = Some 3"
    by code_simp
  show ?thesis
    by (rule conjI [OF trans [OF C2_total_length [OF w10 n] r10]
          trans [OF C2_total_length [OF w2 n] r2]])
qed

subsection \<open>A width that is too small\<close>

text \<open>
  Claim C3. For a pending width \<open>w\<close> with \<open>0 \<le> w \<le> n\<close> the operator writes the text and
  nothing else: no padding, no truncation.
\<close>

theorem C3_verbatim:
  assumes "0 \<le> sint (width s)" and "sint (width s) \<le> int (length (str_member c))"
    and "length (str_member c) < 2 ^ 64"
  shows "operator_lshift s c = Some (s\<lparr>rdbuf := rdbuf s @ str_member c, width := 0\<rparr>)"
  using assms by (rule operator_lshift_verbatim)

text \<open>\<^verbatim>\<open>centered("abc")\<close> at width 2.\<close>

theorem C3_verbatim_witness:
  "operator_lshift (setw 2 init) (centered_string ''abc'') = Some (init\<lparr>rdbuf := ''abc''\<rparr>)"
  using C3_verbatim [of "setw 2 init" "centered_string ''abc''"]
  by (simp add: setw_def init_def centered_string_def center_helper_def)

subsection \<open>Value to text\<close>

text \<open>
  Claim C4. The text a helper holds: a string is stored as it is, a character as the
  string of that one character, every integer type as the decimal text \<open>to_string\<close>
  of its value, and a \<^verbatim>\<open>float\<close> or \<^verbatim>\<open>double\<close> as whatever the platform's \<^verbatim>\<open>std::to_string\<close>
  returns for it.
\<close>

theorem C4_conversion:
  "str_member (centered str) = str
   \<and> str_member (centered_string text) = text
   \<and> str_member (centered_char character) = [character]
   \<and> str_member (centered_schar sc) = to_string (sint sc)
   \<and> str_member (centered_uchar uc) = to_string (uint uc)
   \<and> str_member (centered_short sh) = to_string (sint sh)
   \<and> str_member (centered_ushort ush) = to_string (uint ush)
   \<and> str_member (centered_int i) = to_string (sint i)
   \<and> str_member (centered_uint ui) = to_string (uint ui)
   \<and> str_member (centered_long l) = to_string (sint l)
   \<and> str_member (centered_ulong ul) = to_string (uint ul)
   \<and> str_member (centered_llong ll) = to_string (sint ll)
   \<and> str_member (centered_ullong ull) = to_string (uint ull)
   \<and> str_member (centered_float to_string_float f) = to_string_float f
   \<and> str_member (centered_double to_string_double d) = to_string_double d"
  by (simp add: centered_def centered_string_def centered_char_def centered_schar_def
      centered_uchar_def centered_short_def centered_ushort_def centered_int_def
      centered_uint_def centered_long_def centered_ulong_def centered_llong_def
      centered_ullong_def centered_float_def centered_double_def center_helper_def)

subsection \<open>The pending width afterwards\<close>

text \<open>
  Claim C5. Whenever the operator returns, which it does for every width \<open>w \<ge> 0\<close> and for
  every negative width whose \<^verbatim>\<open>w - left\<close> does not overflow, the stream's width is 0
  afterwards, in the padded branch and in the other one.
\<close>

theorem C5_width_cleared:
  assumes "0 \<le> sint (width s) \<or> \<not> sub_overflows (width s) (left_width (width s) c)"
  shows "map_option width (operator_lshift s c) = Some 0"
  using assms by (simp add: operator_lshift_defined ostream_insert_def)

text \<open>At width 10, \<^verbatim>\<open>Column B\<close> takes the padded branch and \<^verbatim>\<open>==========\<close> the other.\<close>

theorem C5_width_cleared_witness:
  "map_option width (operator_lshift (setw 10 init) (centered_string ''Column B'')) = Some 0
   \<and> map_option width (operator_lshift (setw 10 init) (centered_string ''==========''))
       = Some 0"
  using C5_width_cleared [of "setw 10 init" "centered_string ''Column B''"]
    C5_width_cleared [of "setw 10 init" "centered_string ''==========''"]
  by (simp add: setw_def init_def)

subsection \<open>No width set\<close>

text \<open>
  Claim C6. On a stream whose width is 0 the guard fails and the operator returns the
  stream with the text appended, unpadded. For every width \<open>w \<ge> 0\<close> and every text the
  operator returns: the one undefined step, an overflow of \<^verbatim>\<open>w - left\<close>, cannot happen.
\<close>

theorem C6_no_width_set:
  "(width s = 0 \<longrightarrow>
      \<not> pads (width s) c \<and> operator_lshift s c = Some (s\<lparr>rdbuf := rdbuf s @ str_member c\<rparr>))
   \<and> (0 \<le> sint (width s) \<longrightarrow> operator_lshift s c \<noteq> None)"
proof (intro conjI impI)
  assume z: "width s = 0"
  then show "\<not> pads (width s) c"
    by (simp add: pads_def)
  then show "operator_lshift s c = Some (s\<lparr>rdbuf := rdbuf s @ str_member c\<rparr>)"
    using z by (simp add: operator_lshift_def ostream_insert_def)
next
  assume "0 \<le> sint (width s)"
  then show "operator_lshift s c \<noteq> None"
    by (simp add: operator_lshift_defined)
qed

theorem C6_no_width_set_witness:
  "\<not> pads (width init) (centered_string ''abc'')
   \<and> operator_lshift init (centered_string ''abc'') = Some (init\<lparr>rdbuf := ''abc''\<rparr>)
   \<and> operator_lshift (setw 10 init) (centered_string ''abc'') \<noteq> None"
  using C6_no_width_set [of init "centered_string ''abc''"]
    C6_no_width_set [of "setw 10 init" "centered_string ''abc''"]
  by (simp add: init_def setw_def centered_string_def center_helper_def)

subsection \<open>A column label\<close>

text \<open>
  Claim C7. \<^verbatim>\<open>cout << setw(10) << centered("Column A")\<close> writes the 8 characters of the
  label between one space and one space, 10 characters in all.
\<close>

theorem C7_column_a:
  "operator_lshift (setw 10 init) (centered_string ''Column A'')
     = Some (init\<lparr>rdbuf := '' Column A ''\<rparr>)
   \<and> length '' Column A '' = 10"
  by code_simp

subsection \<open>What the output depends on\<close>

text \<open>
  Claim C8, as the code has it. A helper is a value that the operator reads and never
  returns changed. The characters the operator appends are the same for two streams
  with the same width, the same fill character and the same adjustment (both
  left-adjusted or both not), whatever else differs between them; for a width \<open>w \<ge> 0\<close>
  the operator returns; and the same helper, written again at the same width to the
  stream the first run returned, appends the same characters again.
\<close>

theorem C8_deterministic:
  assumes "width s1 = width s2" and "fill s1 = fill s2"
    and "(flags s1 \<inter> adjustfield = {ios_left}) = (flags s2 \<inter> adjustfield = {ios_left})"
  shows "written s1 (operator_lshift s1 c) = written s2 (operator_lshift s2 c)
     \<and> (0 \<le> sint (width s1) \<longrightarrow> operator_lshift s1 c \<noteq> None)
     \<and> (\<forall>s'. operator_lshift s1 c = Some s' \<longrightarrow>
           written s' (operator_lshift (setw (width s1) s') c) = written s1 (operator_lshift s1 c))"
proof (intro conjI allI impI)
  show "written s1 (operator_lshift s1 c) = written s2 (operator_lshift s2 c)"
    using assms by (rule written_depends)
  show "operator_lshift s1 c \<noteq> None" if "0 \<le> sint (width s1)"
    using that by (simp add: operator_lshift_defined)
  show "written s' (operator_lshift (setw (width s1) s') c) = written s1 (operator_lshift s1 c)"
    if run: "operator_lshift s1 c = Some s'" for s'
  proof -
    have "written (setw (width s1) s') (operator_lshift (setw (width s1) s') c)
            = written s1 (operator_lshift s1 c)"
    proof (rule written_depends)
      show "width (setw (width s1) s') = width s1"
        by (simp add: setw_def)
      show "fill (setw (width s1) s') = fill s1"
        using operator_lshift_frame [OF run] by (simp add: setw_def)
      show "(flags (setw (width s1) s') \<inter> adjustfield = {ios_left})
              = (flags s1 \<inter> adjustfield = {ios_left})"
        using operator_lshift_frame [OF run] by (simp add: setw_def)
    qed
    moreover have "rdbuf (setw (width s1) s') = rdbuf s'"
      by (simp add: setw_def)
    ultimately show ?thesis
      by (simp only:)
  qed
qed

text \<open>
  Two streams at width 5 that differ in what they hold already and in their flags, both
  right-adjusted.
\<close>

theorem C8_deterministic_witness:
  "written (setw 5 init) (operator_lshift (setw 5 init) (centered_char CHR ''w'')) = Some ''  w  ''
   \<and> written (setw 5 (init\<lparr>rdbuf := ''| '', flags := {ios_right, ios_hex}\<rparr>))
        (operator_lshift (setw 5 (init\<lparr>rdbuf := ''| '', flags := {ios_right, ios_hex}\<rparr>))
           (centered_char CHR ''w'')) = Some ''  w  ''"
proof -
  let ?s1 = "setw 5 init"
  let ?s2 = "setw 5 (init\<lparr>rdbuf := ''| '', flags := {ios_right, ios_hex}\<rparr>)"
  let ?c = "centered_char CHR ''w''"
  have h1: "width ?s1 = width ?s2"
    by code_simp
  have h2: "fill ?s1 = fill ?s2"
    by code_simp
  have h3: "(flags ?s1 \<inter> adjustfield = {ios_left}) = (flags ?s2 \<inter> adjustfield = {ios_left})"
    by code_simp
  have r: "written ?s1 (operator_lshift ?s1 ?c) = Some ''  w  ''"
    by code_simp
  have e: "written ?s1 (operator_lshift ?s1 ?c) = written ?s2 (operator_lshift ?s2 ?c)"
    by (rule conjunct1 [OF C8_deterministic [OF h1 h2 h3]])
  show ?thesis
    by (rule conjI [OF r trans [OF sym [OF e] r]])
qed

text \<open>
  Claim C8 as stated asks for the same value, width and fill character only. After
  \<^verbatim>\<open>cout << std::left\<close> the same value at the same width and fill is written differently.
\<close>

theorem C8_fill_counterexample:
  "width (setw 3 init) = width (setw 3 (init\<lparr>flags := {ios_left}\<rparr>))
   \<and> fill (setw 3 init) = fill (setw 3 (init\<lparr>flags := {ios_left}\<rparr>))
   \<and> map_option rdbuf (operator_lshift (setw 3 init) (centered_char CHR ''w'')) = Some '' w ''
   \<and> map_option rdbuf (operator_lshift (setw 3 (init\<lparr>flags := {ios_left}\<rparr>)) (centered_char CHR ''w''))
       = Some ''w  ''"
  by code_simp

subsection \<open>A negative width\<close>

text \<open>
  Claim C9, as the code has it. For a negative width \<open>w\<close> the guard compares \<open>w\<close> reduced
  modulo \<open>2 ^ 64\<close>, that is \<open>2 ^ 64 + w\<close>, and selects the padding branch for every text
  shorter than that. The sum \<^verbatim>\<open>w + c.str_.length()\<close> is unsigned as well: \<open>left\<close> is half
  of \<open>(2 ^ 64 + w + n) mod 2 ^ 64\<close>, a value that is not negative.
\<close>

theorem C9_negative_width:
  assumes "sint w < 0" and "int (length (str_member c)) < 2 ^ 64 + sint w"
  shows "uint w = 2 ^ 64 + sint w
     \<and> pads w c
     \<and> sint (left_width w c) = ((uint w + int (length (str_member c))) mod 2 ^ 64) div 2
     \<and> 0 \<le> sint (left_width w c)"
proof -
  have u: "uint w = 2 ^ 64 + sint w"
    using assms(1) by (simp add: sint64 split: if_splits)
  have n: "uint (length_sz (str_member c)) = int (length (str_member c))"
    using assms by (simp add: uint_length_sz)
  have p: "pads w c"
    using assms(2) u n by (simp add: pads_def word_less_alt)
  have "uint (left_width w c) = ((uint w + int (length (str_member c))) mod 2 ^ 64) div 2"
    using n by (simp add: left_width_def uint_half64 uint_plus64)
  moreover have "uint (left_width w c) < 2 ^ 63"
    using left_width_nonneg [of w c] uint_lt2p [of "left_width w c"]
    by (simp add: sint64 split: if_splits)
  ultimately have "sint (left_width w c) = ((uint w + int (length (str_member c))) mod 2 ^ 64) div 2"
    by (simp add: sint64)
  then show ?thesis
    using u p left_width_nonneg [of w c] by simp
qed

text \<open>Width \<open>-1\<close> and the empty text: \<open>left\<close> is \<open>2 ^ 63 - 1\<close>.\<close>

theorem C9_negative_width_witness:
  "pads (- 1) (centered_string '''')
   \<and> sint (left_width (- 1) (centered_string '''')) = 9223372036854775807"
  using C9_negative_width [of "- 1" "centered_string ''''"]
  by (simp add: centered_string_def center_helper_def)

text \<open>
  Claim C9 as stated has the division carried out on the negative signed value. At width
  \<open>-10\<close> and the text \<^verbatim>\<open>abc\<close> that would be \<open>-7 / 2\<close>, which is \<open>-3\<close> in C++ and \<open>-4\<close>
  rounded down; the operator computes \<open>2 ^ 63 - 4\<close>.
\<close>

theorem C9_signed_left_counterexample:
  "sint (- 10 :: streamsize) = - 10
   \<and> pads (- 10) (centered_string ''abc'')
   \<and> sint (left_width (- 10) (centered_string ''abc'')) = 9223372036854775804
   \<and> (sint (- 10 :: streamsize) + int (length (str_member (centered_string ''abc'')))) sdiv 2 = - 3
   \<and> (sint (- 10 :: streamsize) + int (length (str_member (centered_string ''abc'')))) div 2 = - 4"
  by code_simp

subsection \<open>What the operator leaves alone\<close>

text \<open>
  Claim C10. Whenever the operator returns, the stream it returns differs from the one
  it was given in the characters written and in the width only: putting those two back
  gives the original stream. The fill character and the flags, the adjustment flags
  among them, are the same before and after.
\<close>

theorem C10_frame:
  assumes "0 \<le> sint (width s) \<or> \<not> sub_overflows (width s) (left_width (width s) c)"
  shows "map_option (\<lambda>s'. s'\<lparr>rdbuf := rdbuf s, width := width s\<rparr>) (operator_lshift s c) = Some s
   \<and> map_option fill (operator_lshift s c) = Some (fill s)
   \<and> map_option flags (operator_lshift s c) = Some (flags s)"
  using assms by (simp add: operator_lshift_defined ostream_insert_def Let_def)

text \<open>A stream filling with \<^verbatim>\<open>*\<close>, with \<^verbatim>\<open>right\<close> and \<^verbatim>\<open>hex\<close> set, at width 10.\<close>

theorem C10_frame_witness:
  "map_option fill
     (operator_lshift (setw 10 (init\<lparr>fill := CHR ''*'', flags := {ios_right, ios_hex}\<rparr>))
        (centered_uchar 10)) = Some CHR ''*''
   \<and> map_option flags
     (operator_lshift (setw 10 (init\<lparr>fill := CHR ''*'', flags := {ios_right, ios_hex}\<rparr>))
        (centered_uchar 10)) = Some {ios_right, ios_hex}"
  using C10_frame [of "setw 10 (init\<lparr>fill := CHR ''*'', flags := {ios_right, ios_hex}\<rparr>)"
      "centered_uchar 10"]
  by (simp add: setw_def init_def)

end
